theory Spec2Isabelle
  imports Main
begin

section \<open>The generator store of RedInk (frontend/src/stores/generator.ts)\<close>

text \<open>
  The store is a single mutable aggregate; every action is modelled as a function from
  the state before the call to the state after it. JavaScript numbers are doubles; those
  that hold counts, positions and indices are integer-valued and are integers here
  (\<open>int\<close>), with the rounding of the double written out where the code adds to a
  value that the store does not bound (\<open>js_increment\<close>). A field declared optional
  (\<^verbatim>\<open>error?: string\<close>) or nullable (\<^verbatim>\<open>string | null\<close>) is an \<open>option\<close>.
  The page and image objects held in an array are taken to be pairwise distinct objects,
  as they are when they come from \<^verbatim>\<open>JSON.parse\<close>, from the API or from the store's own
  actions, so that mutating the object returned by \<^verbatim>\<open>find\<close> changes one array position.
\<close>

subsection \<open>Data model\<close>

datatype page_type = Cover | Content | Summary

text \<open>\<^verbatim>\<open>Page\<close> (imported from \<^verbatim>\<open>../api\<close>): the three fields that \<^verbatim>\<open>addPage\<close> writes.\<close>

record page =
  page_index :: int
  page_type :: page_type
  page_content :: string

datatype image_status = ImgGenerating | ImgDone | ImgError | ImgRetrying

record generated_image =
  img_index :: int
  img_url :: string
  img_status :: image_status
  img_error :: "string option"
  img_retryable :: "bool option"
  img_progress :: "int option"

text \<open>The union \<^verbatim>\<open>'idle' | 'generating' | 'done' | 'error'\<close>, used for the progress, the
  content and the outline status.\<close>

datatype run_status = Idle | Generating | Done | Error

record generated_content =
  titles :: "string list"
  copywriting :: string
  tags :: "string list"
  content_status :: run_status
  content_error :: "string option"

datatype stage = StInput | StOutline | StGenerating | StResult

record outline_rec =
  raw :: string
  pages :: "page list"

record progress_rec =
  current :: int
  total :: int
  progress_status :: run_status

text \<open>A \<^verbatim>\<open>File\<close> object is opaque to the store; it is represented by a handle.\<close>

type_synonym file_handle = nat

record generator_state =
  stage :: stage
  topic :: string
  outline :: outline_rec
  progress :: progress_rec
  images :: "generated_image list"
  taskId :: "string option"
  recordId :: "string option"
  userImages :: "file_handle list"
  content :: generated_content
  outlineStatus :: run_status
  lastSavedAt :: "string option"

text \<open>\<^verbatim>\<open>localStorage\<close>: a map from keys to strings.\<close>

type_synonym storage = "string \<rightharpoonup> string"

definition STORAGE_KEY :: string where
  "STORAGE_KEY = ''generator-state''"

datatype exn = TypeError | SyntaxError | QuotaExceededError

subsection \<open>JavaScript array and string primitives used by the store\<close>

text \<open>\<^verbatim>\<open>Array.prototype.join\<close> on an array of strings.\<close>

fun array_join :: "string \<Rightarrow> string list \<Rightarrow> string" where
  "array_join sep [] = []"
| "array_join sep [x] = x"
| "array_join sep (x # y # ys) = x @ sep @ array_join sep (y # ys)"

text \<open>
  \<^verbatim>\<open>Array.prototype.splice(start, deleteCount, ...items)\<close>: a negative start counts from
  the end and is clamped at 0, a start beyond the end is clamped at the length, the delete
  count is clamped to what is left. The result is the removed elements and the new array.
  A fractional or infinite start is first truncated to an integer by the language, so
  integer arguments cover every call.
\<close>

definition splice_start :: "nat \<Rightarrow> int \<Rightarrow> nat" where
  "splice_start len start =
     (if start < 0 then nat (max (int len + start) 0) else min (nat start) len)"

definition splice :: "'a list \<Rightarrow> int \<Rightarrow> nat \<Rightarrow> 'a list \<Rightarrow> 'a list \<times> 'a list" where
  "splice xs start deleteCount items =
     (let actualStart = splice_start (length xs) start;
          actualDeleteCount = min deleteCount (length xs - actualStart)
      in (take actualDeleteCount (drop actualStart xs),
          take actualStart xs @ items @ drop (actualStart + actualDeleteCount) xs))"

text \<open>\<^verbatim>\<open>const x = xs.find(P); if (x) { mutate x }\<close>: the first element that satisfies
  \<open>P\<close> is changed in place, the array is otherwise untouched.\<close>

fun update_first :: "('a \<Rightarrow> bool) \<Rightarrow> ('a \<Rightarrow> 'a) \<Rightarrow> 'a list \<Rightarrow> 'a list" where
  "update_first P f [] = []"
| "update_first P f (x # xs) = (if P x then f x # xs else x # update_first P f xs)"

text \<open>\<^verbatim>\<open>pages.forEach((page, idx) => { page.index = idx })\<close> on an array of pages.\<close>

fun reindex_from :: "nat \<Rightarrow> page list \<Rightarrow> page list" where
  "reindex_from idx [] = []"
| "reindex_from idx (p # ps) = p\<lparr>page_index := int idx\<rparr> # reindex_from (Suc idx) ps"

text \<open>
  The same loop on an array that may hold \<^verbatim>\<open>undefined\<close> (\<open>None\<close>): assigning a property
  of \<^verbatim>\<open>undefined\<close> throws a TypeError, which ends the loop. The result is the pages
  renumbered before the loop ended and whether it threw.
\<close>

fun reindex_opt :: "nat \<Rightarrow> page option list \<Rightarrow> page list \<times> bool" where
  "reindex_opt idx [] = ([], False)"
| "reindex_opt idx (None # ps) = ([], True)"
| "reindex_opt idx (Some p # ps) =
     (let (renumbered, threw) = reindex_opt (Suc idx) ps
      in (p\<lparr>page_index := int idx\<rparr> # renumbered, threw))"

text \<open>Decimal rendering of an integer, as a template literal renders \<^verbatim>\<open>Date.now()\<close>.\<close>

definition digit_char :: "nat \<Rightarrow> char" where
  "digit_char d = ''0123456789'' ! d"

fun string_of_nat :: "nat \<Rightarrow> string" where
  "string_of_nat n =
     (if n < 10 then [digit_char n] else string_of_nat (n div 10) @ [digit_char (n mod 10)])"

definition string_of_int :: "int \<Rightarrow> string" where
  "string_of_int i = (if i < 0 then CHR ''-'' # string_of_nat (nat (- i)) else string_of_nat (nat i))"

text \<open>
  \<^verbatim>\<open>x++\<close> on an integer-valued double: the exact sum, rounded to the nearest double
  with ties to the even mantissa. Every integer of magnitude up to \<^verbatim>\<open>2^53\<close> is a double;
  beyond that a double keeps the leading 53 bits.
\<close>

fun bit_length :: "nat \<Rightarrow> nat" where
  "bit_length n = (if n = 0 then 0 else Suc (bit_length (n div 2)))"

definition round_double :: "int \<Rightarrow> int" where
  "round_double z =
     (let n = nat \<bar>z\<bar>
      in if n \<le> 2 ^ 53 then z
         else (let e = bit_length n - 53;
                   q = n div 2 ^ e;
                   r = n mod 2 ^ e;
                   half = 2 ^ (e - 1);
                   q' = (if half < r \<or> (r = half \<and> odd q) then q + 1 else q)
               in sgn z * int (q' * 2 ^ e)))"

definition js_increment :: "int \<Rightarrow> int" where
  "js_increment x = round_double (x + 1)"

text \<open>JavaScript truthiness of a \<^verbatim>\<open>string | null | undefined\<close> value: \<^verbatim>\<open>null\<close>,
  \<^verbatim>\<open>undefined\<close> and the empty string are falsy.\<close>

definition truthy :: "string option \<Rightarrow> bool" where
  "truthy v = (case v of None \<Rightarrow> False | Some str \<Rightarrow> str \<noteq> [])"

subsection \<open>Outline actions\<close>

definition setOutline :: "generator_state \<Rightarrow> string \<Rightarrow> page list \<Rightarrow> generator_state" where
  "setOutline s raw' pages' =
     s\<lparr>outline := (outline s)\<lparr>raw := raw', pages := pages'\<rparr>,
       stage := StOutline, outlineStatus := Done\<rparr>"

definition syncRawFromPages :: "generator_state \<Rightarrow> generator_state" where
  "syncRawFromPages s =
     s\<lparr>outline := (outline s)\<lparr>raw := array_join ''\<newline>\<newline><page>\<newline>\<newline>''
                                     (map page_content (pages (outline s)))\<rparr>\<rparr>"

definition updatePage :: "generator_state \<Rightarrow> int \<Rightarrow> string \<Rightarrow> generator_state" where
  "updatePage s index content' =
     (case find (\<lambda>p. page_index p = index) (pages (outline s)) of
        None \<Rightarrow> s
      | Some _ \<Rightarrow>
          syncRawFromPages
            (s\<lparr>outline := (outline s)\<lparr>pages :=
                 update_first (\<lambda>p. page_index p = index) (\<lambda>p. p\<lparr>page_content := content'\<rparr>)
                   (pages (outline s))\<rparr>\<rparr>))"

definition deletePage :: "generator_state \<Rightarrow> int \<Rightarrow> generator_state" where
  "deletePage s index =
     syncRawFromPages
       (s\<lparr>outline := (outline s)\<lparr>pages :=
            reindex_from 0 (filter (\<lambda>p. page_index p \<noteq> index) (pages (outline s)))\<rparr>\<rparr>)"

definition addPage :: "generator_state \<Rightarrow> page_type \<Rightarrow> string \<Rightarrow> generator_state" where
  "addPage s type content' =
     (let newPage = \<lparr>page_index = int (length (pages (outline s))),
                     page_type = type, page_content = content'\<rparr>
      in syncRawFromPages
           (s\<lparr>outline := (outline s)\<lparr>pages := pages (outline s) @ [newPage]\<rparr>\<rparr>))"

definition insertPage :: "generator_state \<Rightarrow> int \<Rightarrow> page_type \<Rightarrow> string \<Rightarrow> generator_state" where
  "insertPage s afterIndex type content' =
     (let newPage = \<lparr>page_index = afterIndex + 1, page_type = type, page_content = content'\<rparr>;
          (removed, pages') = splice (pages (outline s)) (afterIndex + 1) 0 [newPage]
      in syncRawFromPages
           (s\<lparr>outline := (outline s)\<lparr>pages := reindex_from 0 pages'\<rparr>\<rparr>))"

text \<open>
  \<^verbatim>\<open>movePage\<close> works on a copy of the array that shares the page objects. When
  \<^verbatim>\<open>fromIndex\<close> addresses no element, the first splice removes nothing, the destructured
  \<^verbatim>\<open>movedPage\<close> is \<^verbatim>\<open>undefined\<close>, the second splice inserts it and the renumbering loop
  throws at it: the store's array is then never replaced and \<^verbatim>\<open>raw\<close> is not re-derived,
  but the page objects in front of the inserted \<^verbatim>\<open>undefined\<close>, which are the objects at the
  same positions of the store's array, have been renumbered. The result is the exception
  thrown, if any, and the state.
\<close>

definition movePage :: "generator_state \<Rightarrow> int \<Rightarrow> int \<Rightarrow> exn option \<times> generator_state" where
  "movePage s fromIndex toIndex =
     (let old = pages (outline s);
          (removed, pages1) = splice (map Some old) fromIndex 1 [];
          movedPage = (case removed of [] \<Rightarrow> None | m # _ \<Rightarrow> m);
          (removed', pages2) = splice pages1 toIndex 0 [movedPage];
          (renumbered, threw) = reindex_opt 0 pages2
      in if threw
         then (Some TypeError,
               s\<lparr>outline := (outline s)\<lparr>pages := renumbered @ drop (length renumbered) old\<rparr>\<rparr>)
         else (None, syncRawFromPages (s\<lparr>outline := (outline s)\<lparr>pages := renumbered\<rparr>\<rparr>)))"

subsection \<open>Image generation actions\<close>

definition startGeneration :: "generator_state \<Rightarrow> generator_state" where
  "startGeneration s =
     s\<lparr>stage := StGenerating,
       progress := (progress s)\<lparr>current := 0, total := int (length (pages (outline s))),
                                progress_status := Generating\<rparr>,
       images := map (\<lambda>p. \<lparr>img_index = page_index p, img_url = [], img_status = ImgGenerating,
                            img_error = None, img_retryable = None, img_progress = None\<rparr>)
                   (pages (outline s))\<rparr>"

text \<open>The \<^verbatim>\<open>status\<close> parameter of \<^verbatim>\<open>updateProgress\<close> is
  \<^verbatim>\<open>'generating' | 'done' | 'error'\<close>; \<^verbatim>\<open>url\<close> and \<^verbatim>\<open>error\<close> are optional and
  are written only when truthy.\<close>

definition updateProgress ::
  "generator_state \<Rightarrow> int \<Rightarrow> image_status \<Rightarrow> string option \<Rightarrow> string option \<Rightarrow> generator_state" where
  "updateProgress s index status url error =
     (let s1 = s\<lparr>images := update_first (\<lambda>img. img_index img = index)
                   (\<lambda>img. let img1 = img\<lparr>img_status := status\<rparr>;
                              img2 = (if truthy url then img1\<lparr>img_url := the url\<rparr> else img1)
                          in if truthy error then img2\<lparr>img_error := error\<rparr> else img2)
                   (images s)\<rparr>
      in if status = ImgDone
         then s1\<lparr>progress := (progress s1)\<lparr>current := js_increment (current (progress s1))\<rparr>\<rparr>
         else s1)"

text \<open>\<^verbatim>\<open>Date.now()\<close> is an input of \<^verbatim>\<open>updateImage\<close>: the parameter \<open>now\<close>, an
  integer number of milliseconds. A time value has magnitude at most 8640000000000000
  (\<open>MAX_TIME\<close>), and the template literal prints such a number in plain decimal.\<close>

definition MAX_TIME :: int where
  "MAX_TIME = 8640000000000000"

definition updateImage :: "generator_state \<Rightarrow> int \<Rightarrow> string \<Rightarrow> int \<Rightarrow> generator_state" where
  "updateImage s index newUrl now =
     s\<lparr>images := update_first (\<lambda>img. img_index img = index)
                   (\<lambda>img. img\<lparr>img_url := newUrl @ ''?t='' @ string_of_int now,
                               img_status := ImgDone, img_error := None\<rparr>)
                   (images s)\<rparr>"

definition setImageRetrying :: "generator_state \<Rightarrow> int \<Rightarrow> generator_state" where
  "setImageRetrying s index =
     s\<lparr>images := update_first (\<lambda>img. img_index img = index)
                   (\<lambda>img. img\<lparr>img_status := ImgRetrying\<rparr>) (images s)\<rparr>"

subsection \<open>Reset and the unsaved-changes query\<close>

text \<open>\<^verbatim>\<open>reset\<close> also removes the snapshot, so it acts on the state and on
  \<^verbatim>\<open>localStorage\<close>.\<close>

definition reset :: "generator_state \<times> storage \<Rightarrow> generator_state \<times> storage" where
  "reset = (\<lambda>(s, ls).
     (s\<lparr>stage := StInput,
        topic := [],
        outline := \<lparr>raw = [], pages = []\<rparr>,
        progress := \<lparr>current = 0, total = 0, progress_status = Idle\<rparr>,
        images := [],
        taskId := None,
        recordId := None,
        userImages := [],
        content := \<lparr>titles = [], copywriting = [], tags = [], content_status = Idle,
                     content_error = None\<rparr>,
        outlineStatus := Idle,
        lastSavedAt := None\<rparr>,
      ls(STORAGE_KEY := None)))"

definition hasUnsavedChanges :: "generator_state \<Rightarrow> bool" where
  "hasUnsavedChanges s =
     (if \<not> truthy (recordId s)
      then topic s \<noteq> [] \<or> length (pages (outline s)) > 0 \<or> length (images s) > 0
      else if \<not> truthy (lastSavedAt s) then True
      else False)"

subsection \<open>Start-up: reading the snapshot back\<close>

text \<open>
  \<^verbatim>\<open>Partial<GeneratorState>\<close>, as the \<^verbatim>\<open>state\<close> factory reads it: each of the ten
  properties is absent (\<open>None\<close>) or holds a value of its declared type. For the three
  nullable strings \<open>None\<close> stands for absent and for \<^verbatim>\<open>null\<close> alike.
\<close>

record saved_state =
  saved_stage :: "stage option"
  saved_topic :: "string option"
  saved_outline :: "outline_rec option"
  saved_progress :: "progress_rec option"
  saved_images :: "generated_image list option"
  saved_taskId :: "string option"
  saved_recordId :: "string option"
  saved_content :: "generated_content option"
  saved_outlineStatus :: "run_status option"
  saved_lastSavedAt :: "string option"

definition empty_object :: saved_state where
  "empty_object =
     \<lparr>saved_stage = None, saved_topic = None, saved_outline = None, saved_progress = None,
      saved_images = None, saved_taskId = None, saved_recordId = None, saved_content = None,
      saved_outlineStatus = None, saved_lastSavedAt = None\<rparr>"

text \<open>
  What \<^verbatim>\<open>JSON.parse\<close> returns, seen through the property reads of the factory:
  \<^verbatim>\<open>null\<close>, on which a property read throws, or any other value. The parser itself is
  a parameter: it throws (\<open>Inl\<close>) on text that is not valid JSON.
\<close>

datatype json = JNull | JValue saved_state

type_synonym parser = "string \<Rightarrow> exn + json"

definition loadState :: "parser \<Rightarrow> storage \<Rightarrow> json" where
  "loadState parse ls =
     (case ls STORAGE_KEY of
        None \<Rightarrow> JValue empty_object
      | Some saved \<Rightarrow>
          if saved = [] then JValue empty_object
          else (case parse saved of
                  Inl e \<Rightarrow> JValue empty_object
                | Inr v \<Rightarrow> v))"

text \<open>\<^verbatim>\<open>saved.x || d\<close> for a property whose values are all truthy when present (a
  non-empty string of a union, an object, an array).\<close>

definition or_default :: "'a option \<Rightarrow> 'a \<Rightarrow> 'a" where
  "or_default v d = (case v of None \<Rightarrow> d | Some x \<Rightarrow> x)"

text \<open>\<^verbatim>\<open>saved.x || null\<close> for a nullable string.\<close>

definition or_null :: "string option \<Rightarrow> string option" where
  "or_null v = (if truthy v then v else None)"

text \<open>The \<^verbatim>\<open>state\<close> factory of the store; a TypeError escapes when the snapshot parses
  to \<^verbatim>\<open>null\<close>.\<close>

definition initial_state :: "parser \<Rightarrow> storage \<Rightarrow> exn + generator_state" where
  "initial_state parse ls =
     (case loadState parse ls of
        JNull \<Rightarrow> Inl TypeError
      | JValue saved \<Rightarrow>
          Inr \<lparr>stage = or_default (saved_stage saved) StInput,
               topic = (if truthy (saved_topic saved) then the (saved_topic saved) else []),
               outline = or_default (saved_outline saved) \<lparr>raw = [], pages = []\<rparr>,
               progress = or_default (saved_progress saved)
                            \<lparr>current = 0, total = 0, progress_status = Idle\<rparr>,
               images = or_default (saved_images saved) [],
               taskId = or_null (saved_taskId saved),
               recordId = or_null (saved_recordId saved),
               userImages = [],
               content = or_default (saved_content saved)
                           \<lparr>titles = [], copywriting = [], tags = [], content_status = Idle,
                            content_error = None\<rparr>,
               outlineStatus = or_default (saved_outlineStatus saved) Idle,
               lastSavedAt = or_null (saved_lastSavedAt saved)\<rparr>)"

subsection \<open>Saving the snapshot\<close>

text \<open>The object that \<^verbatim>\<open>saveState\<close> serializes: every property of the state except
  \<^verbatim>\<open>userImages\<close>.\<close>

definition toSave :: "generator_state \<Rightarrow> saved_state" where
  "toSave s =
     \<lparr>saved_stage = Some (stage s), saved_topic = Some (topic s),
      saved_outline = Some (outline s), saved_progress = Some (progress s),
      saved_images = Some (images s), saved_taskId = taskId s, saved_recordId = recordId s,
      saved_content = Some (content s), saved_outlineStatus = Some (outlineStatus s),
      saved_lastSavedAt = lastSavedAt s\<rparr>"

text \<open>
  \<^verbatim>\<open>JSON.stringify\<close> on that object is a parameter. \<^verbatim>\<open>localStorage.setItem\<close> stores the
  text or throws when the storage does not accept it; whether it accepts is a parameter
  too.
\<close>

type_synonym serializer = "saved_state \<Rightarrow> string"

type_synonym quota = "storage \<Rightarrow> string \<Rightarrow> string \<Rightarrow> bool"

definition setItem :: "quota \<Rightarrow> storage \<Rightarrow> string \<Rightarrow> string \<Rightarrow> exn + storage" where
  "setItem accepts ls key text =
     (if accepts ls key text then Inr (ls(key \<mapsto> text)) else Inl QuotaExceededError)"

text \<open>\<^verbatim>\<open>saveState\<close> catches the exception and leaves the storage as it was.\<close>

definition saveState :: "serializer \<Rightarrow> quota \<Rightarrow> generator_state \<Rightarrow> storage \<Rightarrow> storage" where
  "saveState stringify accepts s ls =
     (case setItem accepts ls STORAGE_KEY (stringify (toSave s)) of
        Inl e \<Rightarrow> ls
      | Inr ls' \<Rightarrow> ls')"

definition saveToStorage :: "serializer \<Rightarrow> quota \<Rightarrow> generator_state \<Rightarrow> storage \<Rightarrow> storage" where
  "saveToStorage stringify accepts s ls = saveState stringify accepts s ls"

text \<open>
  \<^verbatim>\<open>setupAutoSave\<close> installs a deep watcher on the ten saved properties whose callback is
  \<^verbatim>\<open>saveToStorage\<close>. \<^verbatim>\<open>reset\<close> assigns fresh objects to watched properties, so in a
  store with the watcher installed the callback runs once after \<^verbatim>\<open>reset\<close> has returned,
  on the state and the storage that \<^verbatim>\<open>reset\<close> left.
\<close>

definition reset_then_autosave ::
  "serializer \<Rightarrow> quota \<Rightarrow> generator_state \<times> storage \<Rightarrow> generator_state \<times> storage" where
  "reset_then_autosave stringify accepts sl =
     (let (s', ls') = reset sl in (s', saveToStorage stringify accepts s' ls'))"

subsection \<open>Sequences of structural outline operations\<close>

datatype outline_op =
    AddPage page_type string
  | InsertPage int page_type string
  | DeletePage int
  | MovePage int int

text \<open>An exception thrown by \<^verbatim>\<open>movePage\<close> reaches the caller; the store keeps the state
  the action left behind, and the next operation runs on it.\<close>

fun apply_op :: "generator_state \<Rightarrow> outline_op \<Rightarrow> generator_state" where
  "apply_op s (AddPage type content') = addPage s type content'"
| "apply_op s (InsertPage afterIndex type content') = insertPage s afterIndex type content'"
| "apply_op s (DeletePage index) = deletePage s index"
| "apply_op s (MovePage fromIndex toIndex) = snd (movePage s fromIndex toIndex)"

text \<open>The states after each operation of a sequence, in order.\<close>

fun run_ops :: "generator_state \<Rightarrow> outline_op list \<Rightarrow> generator_state list" where
  "run_ops s [] = []"
| "run_ops s (op # ops) = apply_op s op # run_ops (apply_op s op) ops"

text \<open>The numbering invariant: the page at position \<open>i\<close> has index \<open>i\<close>.\<close>

definition indexed :: "page list \<Rightarrow> bool" where
  "indexed ps = (map page_index ps = map int [0..<length ps])"

subsection \<open>Derived notions and sample states\<close>

text \<open>\<^verbatim>\<open>raw\<close> is the pages' content joined by the separator of \<^verbatim>\<open>syncRawFromPages\<close>.\<close>

definition raw_synced :: "generator_state \<Rightarrow> bool" where
  "raw_synced s =
     (raw (outline s) =
        array_join ''\<newline>\<newline><page>\<newline>\<newline>'' (map page_content (pages (outline s))))"

text \<open>Repeated calls of \<^verbatim>\<open>updateImage\<close> for one index, each with its url and its
  clock reading.\<close>

fun updateImage_calls ::
  "generator_state \<Rightarrow> int \<Rightarrow> (string \<times> int) list \<Rightarrow> generator_state" where
  "updateImage_calls s index [] = s"
| "updateImage_calls s index ((newUrl, now) # calls) =
     updateImage_calls (updateImage s index newUrl now) index calls"

text \<open>Reading a decimal rendering back.\<close>

definition digit_value :: "char \<Rightarrow> nat" where
  "digit_value c = of_char c - 48"

definition nat_of_string :: "string \<Rightarrow> nat" where
  "nat_of_string str = foldl (\<lambda>acc c. 10 * acc + digit_value c) 0 str"

definition int_of_string :: "string \<Rightarrow> int" where
  "int_of_string str =
     (case str of
        [] \<Rightarrow> 0
      | c # cs \<Rightarrow> if c = CHR ''-'' then - int (nat_of_string cs) else int (nat_of_string str))"

text \<open>The documented zero value of the state.\<close>

definition zero_state :: generator_state where
  "zero_state =
     \<lparr>stage = StInput, topic = [], outline = \<lparr>raw = [], pages = []\<rparr>,
      progress = \<lparr>current = 0, total = 0, progress_status = Idle\<rparr>,
      images = [], taskId = None, recordId = None, userImages = [],
      content = \<lparr>titles = [], copywriting = [], tags = [], content_status = Idle,
                 content_error = None\<rparr>,
      outlineStatus = Idle, lastSavedAt = None\<rparr>"

text \<open>A three-page outline, the same outline with a generation run started, and that run
  with the image of page 1 failed.\<close>

definition example_pages :: "page list" where
  "example_pages =
     [\<lparr>page_index = 0, page_type = Cover, page_content = ''A''\<rparr>,
      \<lparr>page_index = 1, page_type = Content, page_content = ''B''\<rparr>,
      \<lparr>page_index = 2, page_type = Summary, page_content = ''C''\<rparr>]"

definition example_raw :: string where
  "example_raw = ''A\<newline>\<newline><page>\<newline>\<newline>B\<newline>\<newline><page>\<newline>\<newline>C''"

definition example_outline :: generator_state where
  "example_outline = setOutline zero_state example_raw example_pages"

definition example_running :: generator_state where
  "example_running = startGeneration example_outline"

definition example_failed :: generator_state where
  "example_failed = updateProgress example_running 1 ImgError None (Some ''timeout'')"

text \<open>The JSON text of the zero state's snapshot, a snapshot of a running generation, and
  a storage that accepts every text.\<close>

definition zero_snapshot_text :: string where
  \<open>zero_snapshot_text = ''{"stage":"input","topic":"","outline":{"raw":"","pages":[]},"progress":{"current":0,"total":0,"status":"idle"},"images":[],"taskId":null,"recordId":null,"content":{"titles":[],"copywriting":"","tags":[],"status":"idle"},"outlineStatus":"idle","lastSavedAt":null}''\<close>

definition example_storage :: storage where
  \<open>example_storage = [STORAGE_KEY \<mapsto> ''{"stage":"generating","topic":"tea"}'']\<close>

definition unlimited :: quota where
  "unlimited ls key text = True"

definition example_ops :: "outline_op list" where
  "example_ops = [MovePage 0 2, DeletePage 1, InsertPage 0 Content ''X'',
                  AddPage Summary ''Z'', MovePage 9 1]"

section \<open>Auxiliary facts\<close>

declare string_of_nat.simps [simp del]

declare bit_length.simps [simp del]

subsection \<open>Incrementing a double\<close>




subsection \<open>Decimal rendering\<close>

lemma digit_value_digit_char: "d < 10 \<Longrightarrow> digit_value (digit_char d) = d"
proof -
  assume "d < 10"
  then have "d \<in> {0, 1, 2, 3, 4, 5, 6, 7, 8, 9}" by auto
  then show ?thesis
    by (auto simp: digit_value_def digit_char_def)
qed

lemma digit_char_not_minus: "d < 10 \<Longrightarrow> digit_char d \<noteq> CHR ''-''"
proof -
  assume "d < 10"
  then have "d \<in> {0, 1, 2, 3, 4, 5, 6, 7, 8, 9}" by auto
  then show ?thesis
    by (auto simp: digit_char_def)
qed

lemma nat_of_string_of_nat: "nat_of_string (string_of_nat n) = n"
proof (induction n rule: string_of_nat.induct)
  case (1 n)
  show ?case
  proof (cases "n < 10")
    case True
    then show ?thesis
      by (simp add: string_of_nat.simps [of n] nat_of_string_def digit_value_digit_char)
  next
    case False
    with 1 have "nat_of_string (string_of_nat (n div 10)) = n div 10" by simp
    with False show ?thesis
      by (simp add: string_of_nat.simps [of n] nat_of_string_def digit_value_digit_char)
  qed
qed

lemma string_of_nat_head:
  "string_of_nat n \<noteq> [] \<and> hd (string_of_nat n) \<noteq> CHR ''-''"
proof (induction n rule: string_of_nat.induct)
  case (1 n)
  show ?case
  proof (cases "n < 10")
    case True
    then show ?thesis
      by (simp add: string_of_nat.simps [of n] digit_char_not_minus)
  next
    case False
    with 1 have "string_of_nat (n div 10) \<noteq> [] \<and> hd (string_of_nat (n div 10)) \<noteq> CHR ''-''"
      by simp
    with False show ?thesis
      by (simp add: string_of_nat.simps [of n])
  qed
qed

lemma int_of_string_of_int: "int_of_string (string_of_int i) = i"
proof (cases "i < 0")
  case True
  then show ?thesis
    by (simp add: int_of_string_def string_of_int_def nat_of_string_of_nat)
next
  case False
  obtain c cs where s: "string_of_nat (nat i) = c # cs" and c: "c \<noteq> CHR ''-''"
    using string_of_nat_head [of "nat i"] by (cases "string_of_nat (nat i)") auto
  have "nat_of_string (c # cs) = nat i"
    using nat_of_string_of_nat [of "nat i"] by (simp add: s)
  with False c show ?thesis
    by (simp add: int_of_string_def string_of_int_def s)
qed

lemma string_of_int_inj: "string_of_int a = string_of_int b \<Longrightarrow> a = b"
proof -
  assume eq: "string_of_int a = string_of_int b"
  have "a = int_of_string (string_of_int a)" by (simp only: int_of_string_of_int)
  also have "\<dots> = int_of_string (string_of_int b)" by (simp only: eq)
  also have "\<dots> = b" by (simp only: int_of_string_of_int)
  finally show ?thesis .
qed

lemmas example_defs = example_failed_def example_running_def example_outline_def
  example_pages_def example_raw_def zero_state_def startGeneration_def setOutline_def
  updateProgress_def truthy_def

subsection \<open>Changing the first match of an array\<close>

lemma update_first_none: "find P xs = None \<Longrightarrow> update_first P f xs = xs"
  by (induction xs) (auto split: if_splits)

lemma update_first_nth:
  "k < length xs \<Longrightarrow> P (xs ! k) \<Longrightarrow> \<forall>j<k. \<not> P (xs ! j) \<Longrightarrow>
   update_first P f xs = xs[k := f (xs ! k)]"
proof (induction xs arbitrary: k)
  case Nil
  then show ?case by simp
next
  case (Cons x xs)
  show ?case
  proof (cases k)
    case 0
    with Cons.prems show ?thesis by simp
  next
    case (Suc m)
    with Cons.prems have nx: "\<not> P x" by auto
    from Cons.prems Suc have "m < length xs" "P (xs ! m)" "\<forall>j<m. \<not> P (xs ! j)" by auto
    then have "update_first P f xs = xs[m := f (xs ! m)]" by (rule Cons.IH)
    with nx Suc show ?thesis by simp
  qed
qed

subsection \<open>Renumbering\<close>

lemma reindex_from_length: "length (reindex_from k ps) = length ps"
  by (induction ps arbitrary: k) simp_all

lemma reindex_from_content: "map page_content (reindex_from k ps) = map page_content ps"
  by (induction ps arbitrary: k) simp_all

lemma reindex_from_index: "map page_index (reindex_from k ps) = map int [k..<k + length ps]"
proof (induction ps arbitrary: k)
  case Nil
  then show ?case by simp
next
  case (Cons p ps)
  have "[k..<k + length (p # ps)] = k # [Suc k..<Suc k + length ps]"
    by (simp add: upt_rec)
  with Cons.IH [of "Suc k"] show ?case by simp
qed

lemma indexed_reindex: "indexed (reindex_from 0 ps)"
  by (simp add: indexed_def reindex_from_index reindex_from_length)

lemma reindex_from_indexed_id:
  "map page_index ps = map int [k..<k + length ps] \<Longrightarrow> reindex_from k ps = ps"
proof (induction ps arbitrary: k)
  case Nil
  then show ?case by simp
next
  case (Cons p ps)
  have "[k..<k + length (p # ps)] = k # [Suc k..<Suc k + length ps]"
    by (simp add: upt_conv_Cons del: upt_Suc)
  with Cons.prems have "page_index p = int k"
    and "map page_index ps = map int [Suc k..<Suc k + length ps]"
    by (simp_all del: upt_Suc)
  with Cons.IH [of "Suc k"] show ?case by simp
qed

lemma reindex_opt_Some: "reindex_opt k (map Some ps) = (reindex_from k ps, False)"
  by (induction ps arbitrary: k) simp_all

lemma reindex_opt_undefined:
  "reindex_opt k (map Some ps @ None # rest) = (reindex_from k ps, True)"
  by (induction ps arbitrary: k) simp_all

lemma indexed_append_last:
  "indexed ps \<Longrightarrow> page_index p = int (length ps) \<Longrightarrow> indexed (ps @ [p])"
  by (simp add: indexed_def)

lemma indexed_take: "indexed ps \<Longrightarrow> indexed (take a ps)"
proof -
  assume "indexed ps"
  then have "take a (map page_index ps) = take a (map int [0..<length ps])"
    by (simp add: indexed_def)
  then show ?thesis
    by (simp add: indexed_def take_map min_def)
qed

lemma indexed_nth: "indexed ps \<longleftrightarrow> (\<forall>i<length ps. page_index (ps ! i) = int i)"
proof -
  have "(map page_index ps = map int [0..<length ps]) \<longleftrightarrow>
        (\<forall>i<length ps. map page_index ps ! i = map int [0..<length ps] ! i)"
    by (subst list_eq_iff_nth_eq) simp
  then show ?thesis by (simp add: indexed_def)
qed

subsection \<open>Splicing and \<^verbatim>\<open>movePage\<close>\<close>

lemma take1_drop: "a < length xs \<Longrightarrow> take (Suc 0) (drop a xs) = [xs ! a]"
  by (simp add: Cons_nth_drop_Suc [symmetric])

lemma splice_start_le: "splice_start n i \<le> n"
  by (auto simp: splice_start_def max_def)

lemma splice_start_lt_iff: "splice_start n i < n \<longleftrightarrow> 0 < n \<and> i < int n"
  by (auto simp: splice_start_def)

text \<open>When \<^verbatim>\<open>fromIndex\<close> addresses a page, \<^verbatim>\<open>movePage\<close> returns: the page is taken out,
  put back at the clamped target position, and all pages are renumbered.\<close>

lemma movePage_returns:
  assumes "splice_start (length (pages (outline s))) fromIndex < length (pages (outline s))"
  shows "movePage s fromIndex toIndex =
     (let old = pages (outline s);
          a0 = splice_start (length old) fromIndex;
          rest = take a0 old @ drop (Suc a0) old;
          a = splice_start (length rest) toIndex
      in (None, syncRawFromPages
            (s\<lparr>outline := (outline s)\<lparr>pages :=
                 reindex_from 0 (take a rest @ [old ! a0] @ drop a rest)\<rparr>\<rparr>)))"
proof -
  define old where "old = pages (outline s)"
  define a0 where "a0 = splice_start (length old) fromIndex"
  define rest where "rest = take a0 old @ drop (Suc a0) old"
  define a where "a = splice_start (length rest) toIndex"
  define moved where "moved = take a rest @ [old ! a0] @ drop a rest"
  have lt: "a0 < length old" using assms by (simp add: a0_def old_def)
  have s1: "splice (map Some old) fromIndex (Suc 0) [] = ([Some (old ! a0)], map Some rest)"
    using lt by (simp add: splice_def a0_def [symmetric] rest_def take_map drop_map
        min_def take1_drop)
  have s2: "splice (map Some rest) toIndex 0 [Some (old ! a0)] = ([], map Some moved)"
    by (simp add: splice_def a_def [symmetric] take_map drop_map moved_def)
  have "movePage s fromIndex toIndex =
          (None, syncRawFromPages (s\<lparr>outline := (outline s)\<lparr>pages := reindex_from 0 moved\<rparr>\<rparr>))"
    by (simp add: movePage_def Let_def old_def [symmetric] s1 s2 reindex_opt_Some)
  then show ?thesis
    unfolding Let_def moved_def a_def rest_def a0_def old_def .
qed

text \<open>Otherwise it throws, after renumbering the pages in front of the target position.\<close>

lemma movePage_throws:
  assumes "\<not> splice_start (length (pages (outline s))) fromIndex < length (pages (outline s))"
  shows "movePage s fromIndex toIndex =
     (let old = pages (outline s);
          a = splice_start (length old) toIndex
      in (Some TypeError,
          s\<lparr>outline := (outline s)\<lparr>pages := reindex_from 0 (take a old) @ drop a old\<rparr>\<rparr>))"
proof -
  define old where "old = pages (outline s)"
  define a where "a = splice_start (length old) toIndex"
  have ge: "splice_start (length old) fromIndex = length old"
    using assms splice_start_le [of "length old" fromIndex] by (simp add: old_def)
  have ale: "a \<le> length old" by (simp add: a_def splice_start_le)
  have s1: "splice (map Some old) fromIndex (Suc 0) [] = ([], map Some old)"
    by (simp add: splice_def ge)
  have s2: "splice (map Some old) toIndex 0 [None] =
              ([], map Some (take a old) @ None # map Some (drop a old))"
    by (simp add: splice_def a_def [symmetric] take_map drop_map)
  have "movePage s fromIndex toIndex =
          (Some TypeError,
           s\<lparr>outline := (outline s)\<lparr>pages := reindex_from 0 (take a old) @ drop a old\<rparr>\<rparr>)"
    using ale
    by (simp add: movePage_def Let_def old_def [symmetric] s1 s2 reindex_opt_undefined
        reindex_from_length min_def)
  then show ?thesis
    unfolding Let_def a_def old_def .
qed

lemma movePage_returns_iff:
  "fst (movePage s fromIndex toIndex) = None \<longleftrightarrow>
     pages (outline s) \<noteq> [] \<and> fromIndex < int (length (pages (outline s)))"
proof (cases "splice_start (length (pages (outline s))) fromIndex < length (pages (outline s))")
  case True
  then show ?thesis using True by (simp add: movePage_returns Let_def splice_start_lt_iff)
next
  case False
  then show ?thesis using False by (simp add: movePage_throws Let_def splice_start_lt_iff)
qed

subsection \<open>Each outline action and the two invariants\<close>

lemma syncRawFromPages_pages: "pages (outline (syncRawFromPages s)) = pages (outline s)"
  by (simp add: syncRawFromPages_def)

lemma syncRawFromPages_synced: "raw_synced (syncRawFromPages s)"
  by (simp add: raw_synced_def syncRawFromPages_def)

lemma addPage_indexed:
  "indexed (pages (outline s)) \<Longrightarrow> indexed (pages (outline (addPage s type c)))"
  by (simp add: addPage_def Let_def syncRawFromPages_pages indexed_append_last)

lemma insertPage_indexed: "indexed (pages (outline (insertPage s afterIndex type c)))"
  by (simp add: insertPage_def Let_def syncRawFromPages_pages indexed_reindex split: prod.split)

lemma deletePage_indexed: "indexed (pages (outline (deletePage s index)))"
  by (simp add: deletePage_def syncRawFromPages_pages indexed_reindex)

lemma movePage_indexed:
  assumes "indexed (pages (outline s))"
  shows "indexed (pages (outline (snd (movePage s fromIndex toIndex))))"
proof (cases "splice_start (length (pages (outline s))) fromIndex < length (pages (outline s))")
  case True
  then show ?thesis
    by (simp add: movePage_returns Let_def syncRawFromPages_pages indexed_reindex)
next
  case False
  define a where "a = splice_start (length (pages (outline s))) toIndex"
  have "indexed (take a (pages (outline s)))"
    using assms by (rule indexed_take)
  then have "reindex_from 0 (take a (pages (outline s))) = take a (pages (outline s))"
    by (simp add: indexed_def reindex_from_indexed_id)
  with False assms show ?thesis
    by (simp add: movePage_throws Let_def a_def)
qed

lemma movePage_synced:
  "fst (movePage s fromIndex toIndex) = None \<Longrightarrow> raw_synced (snd (movePage s fromIndex toIndex))"
  by (cases "splice_start (length (pages (outline s))) fromIndex < length (pages (outline s))")
     (simp_all add: movePage_returns movePage_throws Let_def syncRawFromPages_synced)

lemma apply_op_indexed:
  "indexed (pages (outline s)) \<Longrightarrow> indexed (pages (outline (apply_op s op)))"
  by (cases op)
     (simp_all add: addPage_indexed insertPage_indexed deletePage_indexed movePage_indexed)

lemma run_ops_indexed:
  "indexed (pages (outline s)) \<Longrightarrow> s' \<in> set (run_ops s ops) \<Longrightarrow> indexed (pages (outline s'))"
proof (induction ops arbitrary: s)
  case Nil
  then show ?case by simp
next
  case (Cons op ops)
  have step: "indexed (pages (outline (apply_op s op)))"
    using Cons.prems(1) by (rule apply_op_indexed)
  from Cons.prems(2) have "s' = apply_op s op \<or> s' \<in> set (run_ops (apply_op s op) ops)"
    by simp
  then show ?case
  proof
    assume "s' = apply_op s op"
    with step show ?thesis by simp
  next
    assume "s' \<in> set (run_ops (apply_op s op) ops)"
    with step show ?thesis by (rule Cons.IH)
  qed
qed

subsection \<open>The sample states\<close>

lemma example_failed_images:
  "images example_failed =
     [\<lparr>img_index = 0, img_url = [], img_status = ImgGenerating, img_error = None,
       img_retryable = None, img_progress = None\<rparr>,
      \<lparr>img_index = 1, img_url = [], img_status = ImgError, img_error = Some ''timeout'',
       img_retryable = None, img_progress = None\<rparr>,
      \<lparr>img_index = 2, img_url = [], img_status = ImgGenerating, img_error = None,
       img_retryable = None, img_progress = None\<rparr>]"
  by (simp add: example_defs)

lemma example_running_outline:
  "raw (outline example_running) = example_raw" "pages (outline example_running) = example_pages"
  by (simp_all add: example_running_def example_outline_def startGeneration_def setOutline_def)

text \<open>The scenario of the specification: moving the cover of the three-page outline to
  the end.\<close>

lemma movePage_scenario:
  "movePage example_outline 0 2 =
     (None, example_outline\<lparr>outline :=
        \<lparr>raw = ''B\<newline>\<newline><page>\<newline>\<newline>C\<newline>\<newline><page>\<newline>\<newline>A'',
         pages = [\<lparr>page_index = 0, page_type = Content, page_content = ''B''\<rparr>,
                  \<lparr>page_index = 1, page_type = Summary, page_content = ''C''\<rparr>,
                  \<lparr>page_index = 2, page_type = Cover, page_content = ''A''\<rparr>]\<rparr>\<rparr>)"
  by code_simp

lemma example_trace:
  "map (\<lambda>s'. map page_index (pages (outline s'))) (run_ops example_outline example_ops) =
     [[0, 1, 2], [0, 1], [0, 1, 2], [0, 1, 2, 3], [0, 1, 2, 3]]"
  by code_simp

lemma updateImage_calls_progress:
  "progress (updateImage_calls s index calls) = progress s"
  by (induction s index calls rule: updateImage_calls.induct) (simp_all add: updateImage_def)


section \<open>Properties of the store\<close>

subsection \<open>Progress counting\<close>




subsection \<open>Page numbering\<close>

text \<open>
  C2. From a state in which the page at every position \<open>i\<close> has index \<open>i\<close>, after each
  operation of any sequence of \<^verbatim>\<open>addPage\<close>, \<^verbatim>\<open>insertPage\<close>, \<^verbatim>\<open>deletePage\<close> and
  \<^verbatim>\<open>movePage\<close> calls, with any arguments, the page at every position \<open>i\<close> has index
  \<open>i\<close> again: the indices are \<open>0, \<dots>, n - 1\<close>, without duplicates or gaps. This covers
  the calls of \<^verbatim>\<open>movePage\<close> that throw.
\<close>

theorem outline_ops_keep_pages_indexed:
  assumes "\<forall>i<length (pages (outline s)). page_index (pages (outline s) ! i) = int i"
  shows "\<forall>s' \<in> set (run_ops s ops).
           (\<forall>i<length (pages (outline s')). page_index (pages (outline s') ! i) = int i)
           \<and> distinct (map page_index (pages (outline s')))
           \<and> set (map page_index (pages (outline s'))) = int ` {0..<length (pages (outline s'))}"
proof
  fix s' assume mem: "s' \<in> set (run_ops s ops)"
  from assms have "indexed (pages (outline s))" by (simp add: indexed_nth)
  then have ix: "indexed (pages (outline s'))" using mem by (rule run_ops_indexed)
  then have m: "map page_index (pages (outline s')) = map int [0..<length (pages (outline s'))]"
    by (simp add: indexed_def)
  have d: "distinct (map int [0..<length (pages (outline s'))])"
    by (simp add: distinct_map)
  have st: "set (map int [0..<length (pages (outline s'))]) = int ` {0..<length (pages (outline s'))}"
    by simp
  from ix d st show "(\<forall>i<length (pages (outline s')). page_index (pages (outline s') ! i) = int i)
           \<and> distinct (map page_index (pages (outline s')))
           \<and> set (map page_index (pages (outline s'))) = int ` {0..<length (pages (outline s'))}"
    unfolding m by (simp add: indexed_nth)
qed

text \<open>Witness for C2: the three-page outline and five operations, the last of which
  throws.\<close>

theorem outline_ops_keep_pages_indexed_witness:
  "indexed (pages (outline example_outline))
   \<and> length (run_ops example_outline example_ops) = 5
   \<and> list_all (\<lambda>s'. indexed (pages (outline s'))
                    \<and> distinct (map page_index (pages (outline s'))))
        (run_ops example_outline example_ops)"
proof -
  have ix: "indexed (pages (outline example_outline))"
    by (simp add: indexed_def example_defs)
  then have h: "\<forall>i<length (pages (outline example_outline)).
       page_index (pages (outline example_outline) ! i) = int i"
    by (simp add: indexed_nth)
  have len: "length (run_ops example_outline example_ops) = 5"
    by (simp add: example_ops_def)
  from outline_ops_keep_pages_indexed [OF h, of example_ops]
  have "list_all (\<lambda>s'. indexed (pages (outline s'))
                    \<and> distinct (map page_index (pages (outline s'))))
        (run_ops example_outline example_ops)"
    by (simp add: list_all_iff indexed_nth)
  with ix len show ?thesis by blast
qed

subsection \<open>The raw text of the outline\<close>

text \<open>
  C3 (as the code has it). Immediately after \<^verbatim>\<open>deletePage\<close>, \<^verbatim>\<open>addPage\<close> and
  \<^verbatim>\<open>insertPage\<close>, after a \<^verbatim>\<open>movePage\<close> whose \<^verbatim>\<open>fromIndex\<close> addresses a page (the outline
  is not empty and \<^verbatim>\<open>fromIndex\<close> is below its length), which then returns normally, and
  after an \<^verbatim>\<open>updatePage\<close> whose index matches a page, \<^verbatim>\<open>outline.raw\<close> equals the pages'
  content joined by the separator. An \<^verbatim>\<open>updatePage\<close> whose index matches no page changes
  nothing. \<^verbatim>\<open>setOutline\<close> stores the raw text and the pages it is given, without
  deriving one from the other.
\<close>

theorem raw_synced_after_edit:
  "raw_synced (deletePage s index)
   \<and> raw_synced (addPage s type c)
   \<and> raw_synced (insertPage s afterIndex type c)
   \<and> (pages (outline s) \<noteq> [] \<and> fromIndex < int (length (pages (outline s)))
        \<longrightarrow> fst (movePage s fromIndex toIndex) = None
            \<and> raw_synced (snd (movePage s fromIndex toIndex)))
   \<and> (find (\<lambda>p. page_index p = index) (pages (outline s)) \<noteq> None
        \<longrightarrow> raw_synced (updatePage s index c))
   \<and> (find (\<lambda>p. page_index p = index) (pages (outline s)) = None
        \<longrightarrow> updatePage s index c = s)
   \<and> raw (outline (setOutline s raw' pages')) = raw'
   \<and> pages (outline (setOutline s raw' pages')) = pages'"
proof -
  have d: "raw_synced (deletePage s index)"
    by (simp add: deletePage_def syncRawFromPages_synced)
  have a: "raw_synced (addPage s type c)"
    by (simp add: addPage_def Let_def syncRawFromPages_synced)
  have i: "raw_synced (insertPage s afterIndex type c)"
    by (simp add: insertPage_def Let_def syncRawFromPages_synced split: prod.split)
  have m: "pages (outline s) \<noteq> [] \<and> fromIndex < int (length (pages (outline s)))
        \<longrightarrow> fst (movePage s fromIndex toIndex) = None
            \<and> raw_synced (snd (movePage s fromIndex toIndex))"
    using movePage_synced [of s fromIndex toIndex] by (simp add: movePage_returns_iff)
  have u: "find (\<lambda>p. page_index p = index) (pages (outline s)) \<noteq> None
        \<longrightarrow> raw_synced (updatePage s index c)"
    by (auto simp: updatePage_def syncRawFromPages_synced)
  have u': "find (\<lambda>p. page_index p = index) (pages (outline s)) = None
        \<longrightarrow> updatePage s index c = s"
    by (simp add: updatePage_def)
  have so: "raw (outline (setOutline s raw' pages')) = raw'
   \<and> pages (outline (setOutline s raw' pages')) = pages'"
    by (simp add: setOutline_def)
  from d a i m u u' so show ?thesis by blast
qed

text \<open>
  C3 as stated fails for \<^verbatim>\<open>setOutline\<close>: called with the raw text \<^verbatim>\<open># Outline\<close> and the
  three example pages, it leaves a raw text that is not the join of the pages' content.
\<close>

theorem setOutline_raw_not_derived_counterexample:
  "\<not> raw_synced (setOutline zero_state ''# Outline'' example_pages)"
  by (simp add: raw_synced_def setOutline_def example_pages_def)

text \<open>Witness for C3: moving, updating a page that exists and one that does not, in the
  three-page outline.\<close>

theorem raw_synced_after_edit_witness:
  "pages (outline example_outline) \<noteq> []
   \<and> (0::int) < int (length (pages (outline example_outline)))
   \<and> fst (movePage example_outline 0 2) = None
   \<and> raw_synced (snd (movePage example_outline 0 2))
   \<and> find (\<lambda>p. page_index p = 1) (pages (outline example_outline)) \<noteq> None
   \<and> raw_synced (updatePage example_outline 1 ''B2'')
   \<and> find (\<lambda>p. page_index p = 7) (pages (outline example_outline)) = None
   \<and> updatePage example_outline 7 ''B2'' = example_outline"
proof -
  have p: "pages (outline example_outline) = example_pages"
    by (simp add: example_defs)
  have h1: "pages (outline example_outline) \<noteq> []
            \<and> (0::int) < int (length (pages (outline example_outline)))"
    by (simp add: p example_pages_def)
  have h2: "find (\<lambda>p. page_index p = 1) (pages (outline example_outline)) \<noteq> None"
    by (simp add: p example_pages_def)
  have h3: "find (\<lambda>p. page_index p = 7) (pages (outline example_outline)) = None"
    by (simp add: p example_pages_def)
  from h1 h2 raw_synced_after_edit [of example_outline 1 _ _ _ 0 2 "''B2''"]
  have a: "fst (movePage example_outline 0 2) = None
     \<and> raw_synced (snd (movePage example_outline 0 2))
     \<and> raw_synced (updatePage example_outline 1 ''B2'')" by blast
  from h3 raw_synced_after_edit [of example_outline 7 _ _ _ _ _ "''B2''"]
  have b: "updatePage example_outline 7 ''B2'' = example_outline" by blast
  from h1 h2 h3 a b show ?thesis by blast
qed

subsection \<open>Replacing the outline\<close>

text \<open>
  C4 (as the code has it). When the outline already equals the arguments by value,
  \<^verbatim>\<open>setOutline(raw, pages)\<close> leaves the outline and every other field unchanged except
  that it sets \<^verbatim>\<open>stage\<close> to \<^verbatim>\<open>outline\<close> and \<^verbatim>\<open>outlineStatus\<close> to \<^verbatim>\<open>done\<close>; it is a no-op
  exactly when the stage is already \<^verbatim>\<open>outline\<close> and the outline status already \<^verbatim>\<open>done\<close>.
\<close>

theorem setOutline_equal_outline:
  assumes "raw (outline s) = raw'" and "pages (outline s) = pages'"
  shows "setOutline s raw' pages' = s\<lparr>stage := StOutline, outlineStatus := Done\<rparr>
         \<and> (setOutline s raw' pages' = s \<longleftrightarrow> stage s = StOutline \<and> outlineStatus s = Done)"
proof -
  have o: "(outline s)\<lparr>raw := raw', pages := pages'\<rparr> = outline s"
    using assms by simp
  have eq: "setOutline s raw' pages' = s\<lparr>stage := StOutline, outlineStatus := Done\<rparr>"
    by (simp add: setOutline_def o)
  have "s\<lparr>stage := StOutline, outlineStatus := Done\<rparr> = s \<longleftrightarrow>
        stage s = StOutline \<and> outlineStatus s = Done"
  proof
    assume h: "s\<lparr>stage := StOutline, outlineStatus := Done\<rparr> = s"
    then have "stage (s\<lparr>stage := StOutline, outlineStatus := Done\<rparr>) = stage s"
      and "outlineStatus (s\<lparr>stage := StOutline, outlineStatus := Done\<rparr>) = outlineStatus s"
      by simp_all
    then show "stage s = StOutline \<and> outlineStatus s = Done" by simp
  next
    assume "stage s = StOutline \<and> outlineStatus s = Done"
    then show "s\<lparr>stage := StOutline, outlineStatus := Done\<rparr> = s" by simp
  qed
  with eq show ?thesis by simp
qed

text \<open>
  C4 as stated fails: in the running example the outline equals the arguments, the stage
  is \<^verbatim>\<open>generating\<close>, and \<^verbatim>\<open>setOutline\<close> with the very same raw text and pages moves the
  stage back to \<^verbatim>\<open>outline\<close>.
\<close>

theorem setOutline_equal_outline_counterexample:
  "raw (outline example_running) = example_raw
   \<and> pages (outline example_running) = example_pages
   \<and> stage example_running = StGenerating
   \<and> stage (setOutline example_running example_raw example_pages) = StOutline
   \<and> setOutline example_running example_raw example_pages \<noteq> example_running"
proof -
  have st: "stage example_running = StGenerating"
    by (simp add: example_running_def startGeneration_def)
  have st': "stage (setOutline example_running example_raw example_pages) = StOutline"
    by (simp add: setOutline_def)
  have ne: "setOutline example_running example_raw example_pages \<noteq> example_running"
  proof
    assume "setOutline example_running example_raw example_pages = example_running"
    then have "stage (setOutline example_running example_raw example_pages)
               = stage example_running" by simp
    with st st' show False by simp
  qed
  from st st' ne example_running_outline show ?thesis by simp
qed

text \<open>Witness for C4: the same call, by the theorem.\<close>

theorem setOutline_equal_outline_witness:
  "raw (outline example_running) = example_raw
   \<and> pages (outline example_running) = example_pages
   \<and> setOutline example_running example_raw example_pages
       = example_running\<lparr>stage := StOutline, outlineStatus := Done\<rparr>"
proof -
  have r: "raw (outline example_running) = example_raw"
    by (rule example_running_outline)
  have p: "pages (outline example_running) = example_pages"
    by (rule example_running_outline)
  from r p setOutline_equal_outline [OF r p] show ?thesis by blast
qed

subsection \<open>Starting a generation run\<close>

text \<open>
  C5. After \<^verbatim>\<open>startGeneration()\<close>, from any state: the stage is \<^verbatim>\<open>generating\<close>; the
  progress is \<^verbatim>\<open>{current: 0, total: outline.pages.length, status: 'generating'}\<close>; the
  images are, in page order, one entry per page carrying that page's index; every entry
  has status \<^verbatim>\<open>generating\<close>, the empty url and no error.
\<close>

theorem startGeneration_fresh:
  "stage (startGeneration s) = StGenerating
   \<and> progress (startGeneration s) =
       \<lparr>current = 0, total = int (length (pages (outline s))), progress_status = Generating\<rparr>
   \<and> length (images (startGeneration s)) = length (pages (outline s))
   \<and> map img_index (images (startGeneration s)) = map page_index (pages (outline s))
   \<and> map img_status (images (startGeneration s))
       = replicate (length (pages (outline s))) ImgGenerating
   \<and> map img_url (images (startGeneration s)) = replicate (length (pages (outline s))) []
   \<and> map img_error (images (startGeneration s)) = replicate (length (pages (outline s))) None"
  by (simp add: startGeneration_def map_replicate_const comp_def)

subsection \<open>Replacing one image\<close>

text \<open>
  C6. When an image carries the index, \<^verbatim>\<open>updateImage(index, newUrl)\<close>, called at the time
  \<open>now\<close>, changes the first such image only: its status becomes \<^verbatim>\<open>done\<close>, its error is
  removed, and its url becomes \<^verbatim>\<open>newUrl\<close> followed by \<^verbatim>\<open>?t=\<close> and the decimal rendering
  of \<open>now\<close>. That parameter is derived from the time: the time is read back from what
  follows \<^verbatim>\<open>?t=\<close>, and a call at any other time gives a different url. The action never
  touches the progress: no single call and no sequence of calls for the same index makes
  \<^verbatim>\<open>progress.current\<close> grow.
\<close>

theorem updateImage_effect:
  assumes "k < length (images s)" and "img_index (images s ! k) = index"
    and "\<forall>j<k. img_index (images s ! j) \<noteq> index"
    and "\<bar>now\<bar> \<le> MAX_TIME"
  shows "updateImage s index newUrl now =
           s\<lparr>images := (images s)[k := (images s ! k)
                \<lparr>img_url := newUrl @ ''?t='' @ string_of_int now,
                 img_status := ImgDone, img_error := None\<rparr>]\<rparr>
         \<and> take (length newUrl + 3) (img_url (images (updateImage s index newUrl now) ! k))
             = newUrl @ ''?t=''
         \<and> int_of_string
               (drop (length newUrl + 3) (img_url (images (updateImage s index newUrl now) ! k)))
             = now
         \<and> (\<forall>now'. \<bar>now'\<bar> \<le> MAX_TIME \<and> now' \<noteq> now \<longrightarrow>
               img_url (images (updateImage s index newUrl now') ! k)
               \<noteq> img_url (images (updateImage s index newUrl now) ! k))
         \<and> progress (updateImage s index newUrl now) = progress s
         \<and> progress (updateImage_calls s index calls) = progress s"
proof -
  have eq: "updateImage s index newUrl t =
           s\<lparr>images := (images s)[k := (images s ! k)
                \<lparr>img_url := newUrl @ ''?t='' @ string_of_int t,
                 img_status := ImgDone, img_error := None\<rparr>]\<rparr>" for t
    using assms(1-3) by (simp add: updateImage_def update_first_nth)
  have url: "img_url (images (updateImage s index newUrl t) ! k)
             = newUrl @ ''?t='' @ string_of_int t" for t
    using assms(1) by (simp add: eq)
  have readback: "int_of_string
               (drop (length newUrl + 3) (img_url (images (updateImage s index newUrl now) ! k)))
             = now"
    by (simp add: url int_of_string_of_int)
  have pre: "take (length newUrl + 3) (img_url (images (updateImage s index newUrl now) ! k))
             = newUrl @ ''?t=''"
    by (simp add: url)
  have diff: "img_url (images (updateImage s index newUrl now') ! k)
               \<noteq> img_url (images (updateImage s index newUrl now) ! k)"
    if "now' \<noteq> now" for now'
  proof
    assume "img_url (images (updateImage s index newUrl now') ! k)
               = img_url (images (updateImage s index newUrl now) ! k)"
    then have "string_of_int now' = string_of_int now" by (simp add: url)
    then have "now' = now" by (rule string_of_int_inj)
    with that show False by simp
  qed
  have pr: "progress (updateImage s index newUrl now) = progress s"
    by (simp add: updateImage_def)
  from eq [of now] pre readback diff pr updateImage_calls_progress [of s index calls]
  show ?thesis by blast
qed

text \<open>Witness for C6: the failed image of page 1 is replaced, at two times one
  millisecond apart.\<close>

theorem updateImage_effect_witness:
  "(1::nat) < length (images example_failed)
   \<and> img_index (images example_failed ! 1) = 1
   \<and> img_index (images example_failed ! 0) \<noteq> 1
   \<and> \<bar>1700000000000\<bar> \<le> MAX_TIME
   \<and> images (updateImage example_failed 1 ''/api/images/t1/1.png'' 1700000000000) ! 1 =
       \<lparr>img_index = 1, img_url = ''/api/images/t1/1.png?t=1700000000000'',
        img_status = ImgDone, img_error = None, img_retryable = None, img_progress = None\<rparr>
   \<and> img_url (images (updateImage example_failed 1 ''/api/images/t1/1.png'' 1700000000001) ! 1)
       \<noteq> img_url (images (updateImage example_failed 1 ''/api/images/t1/1.png'' 1700000000000) ! 1)
   \<and> progress (updateImage example_failed 1 ''/api/images/t1/1.png'' 1700000000000)
       = progress example_failed"
proof -
  have h1: "(1::nat) < length (images example_failed)"
    by (simp add: example_failed_images)
  have h2: "img_index (images example_failed ! 1) = 1"
    by (simp add: example_failed_images)
  have h3: "\<forall>j<1. img_index (images example_failed ! j) \<noteq> 1"
    by (simp add: example_failed_images)
  have h4: "\<bar>1700000000000\<bar> \<le> MAX_TIME"
    by (simp add: MAX_TIME_def)
  have h5: "\<bar>1700000000001\<bar> \<le> MAX_TIME \<and> (1700000000001::int) \<noteq> 1700000000000"
    by (simp add: MAX_TIME_def)
  have ts: "string_of_int 1700000000000 = ''1700000000000''"
    by (simp add: string_of_int_def string_of_nat.simps digit_char_def)
  note inst = updateImage_effect [OF h1 h2 h3 h4, of "''/api/images/t1/1.png''" "[]"]
  from inst have a: "images (updateImage example_failed 1 ''/api/images/t1/1.png'' 1700000000000) ! 1 =
       \<lparr>img_index = 1, img_url = ''/api/images/t1/1.png?t=1700000000000'',
        img_status = ImgDone, img_error = None, img_retryable = None, img_progress = None\<rparr>"
    by (simp add: ts example_failed_images)
  from inst h5 have b: "img_url (images (updateImage example_failed 1 ''/api/images/t1/1.png'' 1700000000001) ! 1)
       \<noteq> img_url (images (updateImage example_failed 1 ''/api/images/t1/1.png'' 1700000000000) ! 1)"
    by blast
  from inst have c: "progress (updateImage example_failed 1 ''/api/images/t1/1.png'' 1700000000000)
       = progress example_failed"
    by blast
  have d: "img_index (images example_failed ! 0) \<noteq> 1"
    by (simp add: example_failed_images)
  from h1 h2 d h4 a b c show ?thesis by blast
qed

subsection \<open>Reset\<close>

text \<open>
  C7. From any state and any content of the local storage, when \<^verbatim>\<open>reset()\<close> returns the
  state is the documented zero state (stage \<^verbatim>\<open>input\<close>, empty topic, empty outline,
  progress \<^verbatim>\<open>{0, 0, idle}\<close>, no images, no task id, no record id, no user images, idle
  empty content, outline status \<^verbatim>\<open>idle\<close>, no save time), and the local storage holds
  nothing under the storage key. The snapshot does not stay away: with the watcher of
  \<^verbatim>\<open>setupAutoSave\<close> installed, the callback that the assignments of \<^verbatim>\<open>reset\<close> trigger
  stores the serialized zero state under the storage key again, whenever the storage
  accepts it. The state stays the zero state.
\<close>

theorem reset_then_autosave_snapshot:
  "fst (reset (s, ls)) =
     \<lparr>stage = StInput, topic = [], outline = \<lparr>raw = [], pages = []\<rparr>,
      progress = \<lparr>current = 0, total = 0, progress_status = Idle\<rparr>,
      images = [], taskId = None, recordId = None, userImages = [],
      content = \<lparr>titles = [], copywriting = [], tags = [], content_status = Idle,
                 content_error = None\<rparr>,
      outlineStatus = Idle, lastSavedAt = None\<rparr>
   \<and> snd (reset (s, ls)) STORAGE_KEY = None
   \<and> fst (reset_then_autosave stringify accepts (s, ls)) = fst (reset (s, ls))
   \<and> (accepts (snd (reset (s, ls))) STORAGE_KEY (stringify (toSave zero_state)) \<longrightarrow>
        snd (reset_then_autosave stringify accepts (s, ls)) STORAGE_KEY
          = Some (stringify (toSave zero_state)))"
  by (simp add: reset_def reset_then_autosave_def saveToStorage_def saveState_def setItem_def
        zero_state_def toSave_def)

text \<open>
  Witness for C7: the running example with a snapshot in the storage. After \<^verbatim>\<open>reset\<close>
  the key is absent; after the watcher's callback it holds the JSON text of the zero
  state.
\<close>

theorem reset_then_autosave_snapshot_witness:
  "example_storage STORAGE_KEY \<noteq> None
   \<and> snd (reset (example_running, example_storage)) STORAGE_KEY = None
   \<and> unlimited (snd (reset (example_running, example_storage))) STORAGE_KEY zero_snapshot_text
   \<and> snd (reset_then_autosave (\<lambda>v. zero_snapshot_text) unlimited
             (example_running, example_storage)) STORAGE_KEY
       = Some zero_snapshot_text
   \<and> fst (reset_then_autosave (\<lambda>v. zero_snapshot_text) unlimited
             (example_running, example_storage))
       = zero_state"
proof -
  have e: "example_storage STORAGE_KEY \<noteq> None"
    by (simp add: example_storage_def)
  have u: "unlimited (snd (reset (example_running, example_storage))) STORAGE_KEY
             zero_snapshot_text"
    by (simp add: unlimited_def)
  note inst = reset_then_autosave_snapshot
               [of example_running example_storage "\<lambda>v. zero_snapshot_text" unlimited]
  from inst have a: "snd (reset (example_running, example_storage)) STORAGE_KEY = None"
    by blast
  from inst u have b: "snd (reset_then_autosave (\<lambda>v. zero_snapshot_text) unlimited
             (example_running, example_storage)) STORAGE_KEY
       = Some zero_snapshot_text"
    by blast
  from inst have c: "fst (reset_then_autosave (\<lambda>v. zero_snapshot_text) unlimited
             (example_running, example_storage))
       = zero_state"
    by (simp add: zero_state_def)
  from e a u b c show ?thesis by blast
qed

subsection \<open>Start-up\<close>

text \<open>
  C8. When the local storage holds nothing under the storage key, or holds a text on
  which the JSON parser throws, the state factory returns normally, with the documented
  default state: no exception reaches the caller.
\<close>

theorem initial_state_defaults:
  assumes "ls STORAGE_KEY = None
           \<or> (\<exists>saved e. ls STORAGE_KEY = Some saved \<and> parse saved = Inl e)"
  shows "initial_state parse ls = Inr zero_state"
proof -
  from assms have "loadState parse ls = JValue empty_object"
    by (auto simp: loadState_def)
  then show ?thesis
    by (simp add: initial_state_def empty_object_def or_default_def or_null_def truthy_def
          zero_state_def)
qed

text \<open>Witness for C8: an empty storage, and a snapshot cut off in the middle, with a
  parser that rejects it.\<close>

theorem initial_state_defaults_witness:
  "initial_state (\<lambda>txt. Inl SyntaxError) Map.empty = Inr zero_state
   \<and> initial_state (\<lambda>txt. Inl SyntaxError) [STORAGE_KEY \<mapsto> ''{stage:''] = Inr zero_state"
proof -
  have "initial_state (\<lambda>txt. Inl SyntaxError) Map.empty = Inr zero_state"
    using initial_state_defaults [of Map.empty "\<lambda>txt. Inl SyntaxError"] by simp
  moreover
  have "initial_state (\<lambda>txt. Inl SyntaxError) [STORAGE_KEY \<mapsto> ''{stage:''] = Inr zero_state"
    using initial_state_defaults [of "[STORAGE_KEY \<mapsto> ''{stage:'']" "\<lambda>txt. Inl SyntaxError"]
    by simp
  ultimately show ?thesis by blast
qed

subsection \<open>Unsaved changes\<close>

text \<open>
  C9. \<^verbatim>\<open>hasUnsavedChanges()\<close> is true if and only if either the record id is unset and at
  least one of topic, pages and images is not empty, or the record id is set and the
  save time is unset; it is false in every other state. The code tests both fields for
  truthiness, so unset means \<^verbatim>\<open>null\<close> or the empty string; for states that hold no empty
  string in these two fields, unset means \<^verbatim>\<open>null\<close>. The query is a function of the state
  and changes nothing.
\<close>

theorem hasUnsavedChanges_iff:
  "(hasUnsavedChanges s \<longleftrightarrow>
      (\<not> truthy (recordId s)
         \<and> (topic s \<noteq> [] \<or> pages (outline s) \<noteq> [] \<or> images s \<noteq> []))
      \<or> (truthy (recordId s) \<and> \<not> truthy (lastSavedAt s)))
   \<and> (recordId s \<noteq> Some [] \<and> lastSavedAt s \<noteq> Some [] \<longrightarrow>
        (hasUnsavedChanges s \<longleftrightarrow>
           (recordId s = None
              \<and> (topic s \<noteq> [] \<or> pages (outline s) \<noteq> [] \<or> images s \<noteq> []))
           \<or> (recordId s \<noteq> None \<and> lastSavedAt s = None)))"
  by (auto simp: hasUnsavedChanges_def truthy_def split: option.splits)

text \<open>Witness for C9: nothing entered; a topic entered; a record id without save time; a
  saved record.\<close>

theorem hasUnsavedChanges_iff_witness:
  "\<not> hasUnsavedChanges zero_state
   \<and> hasUnsavedChanges (zero_state\<lparr>topic := ''tea''\<rparr>)
   \<and> hasUnsavedChanges (zero_state\<lparr>recordId := Some ''r1''\<rparr>)
   \<and> \<not> hasUnsavedChanges
         (zero_state\<lparr>topic := ''tea'', recordId := Some ''r1'',
                     lastSavedAt := Some ''2025-01-01T00:00:00.000Z''\<rparr>)"
proof -
  have a: "\<not> hasUnsavedChanges zero_state"
    using hasUnsavedChanges_iff [of zero_state] by (simp add: zero_state_def truthy_def)
  have b: "hasUnsavedChanges (zero_state\<lparr>topic := ''tea''\<rparr>)"
    using hasUnsavedChanges_iff [of "zero_state\<lparr>topic := ''tea''\<rparr>"]
    by (simp add: zero_state_def truthy_def)
  have c: "hasUnsavedChanges (zero_state\<lparr>recordId := Some ''r1''\<rparr>)"
    using hasUnsavedChanges_iff [of "zero_state\<lparr>recordId := Some ''r1''\<rparr>"]
    by (simp add: zero_state_def truthy_def)
  have d: "\<not> hasUnsavedChanges
         (zero_state\<lparr>topic := ''tea'', recordId := Some ''r1'',
                     lastSavedAt := Some ''2025-01-01T00:00:00.000Z''\<rparr>)"
    using hasUnsavedChanges_iff [of "zero_state\<lparr>topic := ''tea'', recordId := Some ''r1'',
                     lastSavedAt := Some ''2025-01-01T00:00:00.000Z''\<rparr>"]
    by (simp add: zero_state_def truthy_def)
  from a b c d show ?thesis by blast
qed

subsection \<open>Marking an image as retrying\<close>

text \<open>
  C10. \<^verbatim>\<open>setImageRetrying(index)\<close> changes nothing when no image carries the index.
  Otherwise it sets the status of the first image that carries it to \<^verbatim>\<open>retrying\<close>,
  whatever that status was, and leaves the image's other fields, the other images and
  the rest of the state as they were.
\<close>

theorem setImageRetrying_frame:
  "(find (\<lambda>img. img_index img = index) (images s) = None \<longrightarrow> setImageRetrying s index = s)
   \<and> (\<forall>k. k < length (images s) \<and> img_index (images s ! k) = index
            \<and> (\<forall>j<k. img_index (images s ! j) \<noteq> index)
        \<longrightarrow> setImageRetrying s index =
              s\<lparr>images := (images s)[k := (images s ! k)\<lparr>img_status := ImgRetrying\<rparr>]\<rparr>)"
  by (simp add: setImageRetrying_def update_first_none update_first_nth)

text \<open>Witness for C10: an index that no image carries, and the image of page 0, which is
  still \<^verbatim>\<open>generating\<close>.\<close>

theorem setImageRetrying_frame_witness:
  "find (\<lambda>img. img_index img = 7) (images example_failed) = None
   \<and> setImageRetrying example_failed 7 = example_failed
   \<and> (0::nat) < length (images example_failed)
   \<and> img_index (images example_failed ! 0) = 0
   \<and> img_status (images example_failed ! 0) = ImgGenerating
   \<and> setImageRetrying example_failed 0 =
       example_failed\<lparr>images := (images example_failed)
          [0 := (images example_failed ! 0)\<lparr>img_status := ImgRetrying\<rparr>]\<rparr>"
proof -
  have h0: "find (\<lambda>img. img_index img = 7) (images example_failed) = None"
    by (simp add: example_failed_images)
  have h1: "(0::nat) < length (images example_failed)
            \<and> img_index (images example_failed ! 0) = 0
            \<and> (\<forall>j<0. img_index (images example_failed ! j) \<noteq> 0)"
    by (simp add: example_failed_images)
  have st: "img_status (images example_failed ! 0) = ImgGenerating"
    by (simp add: example_failed_images)
  from h0 setImageRetrying_frame [of 7 example_failed]
  have a: "setImageRetrying example_failed 7 = example_failed"
    by blast
  from h1 setImageRetrying_frame [of 0 example_failed]
  have b: "setImageRetrying example_failed 0 =
       example_failed\<lparr>images := (images example_failed)
          [0 := (images example_failed ! 0)\<lparr>img_status := ImgRetrying\<rparr>]\<rparr>"
    by blast
  from h0 h1 st a b show ?thesis by blast
qed

end
